theory Spec2Isabelle
  imports Main "HOL-Library.State_Monad" "HOL-Library.Numeral_Type"
begin

section \<open>The consumed algebraic interface\<close>

text \<open>
  \<^verbatim>\<open>uscs_ppzksnark_basic_policy\<close> is a template over \<^verbatim>\<open>CurveType\<close>. The curve library is
  not part of the sources, so the operations the policy calls are taken as a parameter: a
  record of functions over the scalar field \<open>'fr\<close>, the groups \<open>'g1\<close> and \<open>'g2\<close>, the
  precomputation types \<open>'p1\<close> and \<open>'p2\<close>, and \<open>'k\<close>, the type of Miller-loop values and of
  the target group (\<^verbatim>\<open>Fqk_type\<close> and \<^verbatim>\<open>gt_type\<close>, which the code multiplies and compares
  with each other). No law is built in: a theorem that needs one states it.
\<close>

record ('fr, 'g1, 'g2, 'p1, 'p2, 'k) curve =
  fr_zero :: 'fr
  fr_mul :: "'fr \<Rightarrow> 'fr \<Rightarrow> 'fr"
  g1_one :: 'g1
  g1_zero :: 'g1
  g1_add :: "'g1 \<Rightarrow> 'g1 \<Rightarrow> 'g1"
  g1_mul :: "'fr \<Rightarrow> 'g1 \<Rightarrow> 'g1"
  g1_is_well_formed :: "'g1 \<Rightarrow> bool"
  g2_one :: 'g2
  g2_zero :: 'g2
  g2_add :: "'g2 \<Rightarrow> 'g2 \<Rightarrow> 'g2"
  g2_mul :: "'fr \<Rightarrow> 'g2 \<Rightarrow> 'g2"
  g2_is_well_formed :: "'g2 \<Rightarrow> bool"
  precompute_g1 :: "'g1 \<Rightarrow> 'p1"
  precompute_g2 :: "'g2 \<Rightarrow> 'p2"
  miller_loop :: "'p1 \<Rightarrow> 'p2 \<Rightarrow> 'k"
  final_exponentiation :: "'k \<Rightarrow> 'k"
  gt_mul :: "'k \<Rightarrow> 'k \<Rightarrow> 'k"
  unitary_inversed :: "'k \<Rightarrow> 'k"
  gt_one :: 'k

text \<open>
  Modelled from the spec: \<^verbatim>\<open>multiexp\<close> and \<^verbatim>\<open>multiexp_with_mixed_addition\<close> (the
  multi-exponentiation library is not among the sources). The spec defines the
  multi-scalar multiplication as the sum of \<open>s\<^sub>i \<cdot> P\<^sub>i\<close> over the two ranges and states
  that the chunk count and the mixed-addition representation do not change the result.
  The sum starts from the group identity and adds the terms from left to right.
\<close>

definition multiexp :: "('g \<Rightarrow> 'g \<Rightarrow> 'g) \<Rightarrow> ('fr \<Rightarrow> 'g \<Rightarrow> 'g) \<Rightarrow> 'g \<Rightarrow> 'g list \<Rightarrow> 'fr list \<Rightarrow> 'g" where
  "multiexp add mul zero vec scalars =
     foldl (\<lambda>acc (g, s). add acc (mul s g)) zero (zip vec scalars)"

text \<open>
  Modelled from the spec: \<^verbatim>\<open>batch_exp\<close> and \<^verbatim>\<open>batch_exp_with_coeff\<close> (window-table
  exponentiation, not among the sources). \<open>batch_exp(T, v)\<close> encodes every scalar of \<open>v\<close> as
  a multiple of the generator the table \<open>T\<close> was built over; with a coefficient, the
  coefficient is applied elementwise first. The window size only tunes the computation.
\<close>

definition batch_exp :: "('fr \<Rightarrow> 'g \<Rightarrow> 'g) \<Rightarrow> 'g \<Rightarrow> 'fr list \<Rightarrow> 'g list" where
  "batch_exp mul base v = map (\<lambda>s. mul s base) v"

definition batch_exp_with_coeff ::
  "('fr \<Rightarrow> 'fr \<Rightarrow> 'fr) \<Rightarrow> ('fr \<Rightarrow> 'g \<Rightarrow> 'g) \<Rightarrow> 'g \<Rightarrow> 'fr \<Rightarrow> 'fr list \<Rightarrow> 'g list" where
  "batch_exp_with_coeff fmul mul base coeff v = map (\<lambda>s. mul (fmul coeff s) base) v"

section \<open>Accumulation vector\<close>

text \<open>
  Modelled from the spec: \<^verbatim>\<open>accumulation_vector\<close> (its header is not among the sources).
  It is a pair \<open>(first, rest)\<close>: \<open>first\<close> is the base, \<open>rest\<close> holds group elements indexed by
  public-input position, sparsely (position, element), together with the size of the
  domain. Built from a base and a dense vector, the positions are \<open>0, 1, \<dots>\<close> and the domain
  size is the length of the vector. \<open>accumulate_chunk\<close> takes a scalar sequence aligned at
  \<open>offset\<close>, folds the sum of \<open>scalar\<^sub>j \<cdot> value\<^sub>j\<close> over the positions the chunk covers into
  \<open>first\<close>, and keeps the positions it does not cover in \<open>rest\<close>; the vector is fully
  accumulated when no position is left.
\<close>

record 'g accumulation_vector =
  first :: 'g
  rest :: "(nat \<times> 'g) list"
  rest_domain_size :: nat

definition accumulation_vector_of :: "'g \<Rightarrow> 'g list \<Rightarrow> 'g accumulation_vector" where
  "accumulation_vector_of base v =
     \<lparr>first = base, rest = zip [0..<length v] v, rest_domain_size = length v\<rparr>"

definition domain_size :: "'g accumulation_vector \<Rightarrow> nat" where
  "domain_size av = rest_domain_size av"

definition is_fully_accumulated :: "'g accumulation_vector \<Rightarrow> bool" where
  "is_fully_accumulated av = (rest av = [])"

definition in_chunk :: "nat \<Rightarrow> nat \<Rightarrow> nat \<times> 'g \<Rightarrow> bool" where
  "in_chunk offset range_len e = (offset \<le> fst e \<and> fst e < offset + range_len)"

definition accumulate_chunk ::
  "('g \<Rightarrow> 'g \<Rightarrow> 'g) \<Rightarrow> ('fr \<Rightarrow> 'g \<Rightarrow> 'g) \<Rightarrow> 'g \<Rightarrow> 'g accumulation_vector \<Rightarrow> 'fr list \<Rightarrow> nat
     \<Rightarrow> 'g accumulation_vector" where
  "accumulate_chunk add mul zero av scalars offset =
     (let covered = filter (in_chunk offset (length scalars)) (rest av);
          accumulated_value =
            multiexp add mul zero (map snd covered) (map (\<lambda>e. scalars ! (fst e - offset)) covered)
      in \<lparr>first = add (first av) accumulated_value,
          rest = filter (\<lambda>e. \<not> in_chunk offset (length scalars) e) (rest av),
          rest_domain_size = rest_domain_size av\<rparr>)"

section \<open>Keys and proofs\<close>

text \<open>
  The verification key, the processed verification key and the proof of
  \<^verbatim>\<open>basic_policy.hpp\<close>. Both keys have a member \<^verbatim>\<open>encoded_IC_query\<close>; the one of the
  processed key is named \<open>pvk_encoded_IC_query\<close> here. The struct \<^verbatim>\<open>proof\<close> is named
  \<open>uscs_proof\<close>.
\<close>

record ('g1, 'g2) verification_key =
  tilde_g2 :: 'g2
  alpha_tilde_g2 :: 'g2
  Z_g2 :: 'g2
  encoded_IC_query :: "'g1 accumulation_vector"

record ('g1, 'p1, 'p2, 'k) processed_verification_key =
  pp_G1_one_precomp :: 'p1
  pp_G2_one_precomp :: 'p2
  vk_tilde_g2_precomp :: 'p2
  vk_alpha_tilde_g2_precomp :: 'p2
  vk_Z_g2_precomp :: 'p2
  pairing_of_g1_and_g2 :: 'k
  pvk_encoded_IC_query :: "'g1 accumulation_vector"

record ('g1, 'g2) uscs_proof =
  V_g1 :: 'g1
  alpha_V_g1 :: 'g1
  H_g1 :: 'g1
  V_g2 :: 'g2

definition default_proof :: "('fr, 'g1, 'g2, 'p1, 'p2, 'k) curve \<Rightarrow> ('g1, 'g2) uscs_proof" where
  "default_proof C = \<lparr>V_g1 = g1_one C, alpha_V_g1 = g1_one C, H_g1 = g1_one C, V_g2 = g2_one C\<rparr>"

definition is_well_formed :: "('fr, 'g1, 'g2, 'p1, 'p2, 'k) curve \<Rightarrow> ('g1, 'g2) uscs_proof \<Rightarrow> bool" where
  "is_well_formed C prf =
     (g1_is_well_formed C (V_g1 prf) \<and> g1_is_well_formed C (alpha_V_g1 prf) \<and>
      g1_is_well_formed C (H_g1 prf) \<and> g2_is_well_formed C (V_g2 prf))"

section \<open>Failures and the log of pairing calls\<close>

text \<open>
  The C++ \<^verbatim>\<open>assert\<close> aborts the run in a build where assertions are active and is
  compiled out under \<^verbatim>\<open>NDEBUG\<close>. Every algorithm therefore takes the flag
  \<open>assertions\<close> and returns \<open>Inl Assertion_failed\<close> where an active assertion fails. An
  iterator or an index outside its vector is undefined behaviour in either build; the
  model returns \<open>Inl Out_of_bounds\<close> there.
\<close>

datatype error = Assertion_failed | Out_of_bounds

text \<open>
  The verifier algorithms run in a state monad whose state is the log of the calls made
  to the pairing library, in the order the code makes them. A property about which
  pairing work a run performs is a property of this log.
\<close>

datatype pairing_call = Precompute_g1 | Precompute_g2 | Miller_loop | Final_exponentiation

definition log_call :: "pairing_call \<Rightarrow> 'a \<Rightarrow> (pairing_call list, 'a) state" where
  "log_call c v = State (\<lambda>l. (v, l @ [c]))"

section \<open>Processing the verification key\<close>

definition verifier_process_vk ::
  "('fr, 'g1, 'g2, 'p1, 'p2, 'k) curve \<Rightarrow> ('g1, 'g2) verification_key
     \<Rightarrow> (pairing_call list, ('g1, 'p1, 'p2, 'k) processed_verification_key) state" where
  "verifier_process_vk C vkey = do {
     g1_pre \<leftarrow> log_call Precompute_g1 (precompute_g1 C (g1_one C));
     g2_pre \<leftarrow> log_call Precompute_g2 (precompute_g2 C (g2_one C));
     tilde_pre \<leftarrow> log_call Precompute_g2 (precompute_g2 C (tilde_g2 vkey));
     alpha_tilde_pre \<leftarrow> log_call Precompute_g2 (precompute_g2 C (alpha_tilde_g2 vkey));
     Z_pre \<leftarrow> log_call Precompute_g2 (precompute_g2 C (Z_g2 vkey));
     pairing \<leftarrow> log_call Miller_loop (miller_loop C g1_pre g2_pre);
     State_Monad.return
       \<lparr>pp_G1_one_precomp = g1_pre,
        pp_G2_one_precomp = g2_pre,
        vk_tilde_g2_precomp = tilde_pre,
        vk_alpha_tilde_g2_precomp = alpha_tilde_pre,
        vk_Z_g2_precomp = Z_pre,
        pairing_of_g1_and_g2 = pairing,
        pvk_encoded_IC_query = encoded_IC_query vkey\<rparr>
   }"

section \<open>The verifiers\<close>

definition online_verifier_weak_IC ::
  "('fr, 'g1, 'g2, 'p1, 'p2, 'k) curve \<Rightarrow> bool \<Rightarrow> ('g1, 'p1, 'p2, 'k) processed_verification_key
     \<Rightarrow> 'fr list \<Rightarrow> ('g1, 'g2) uscs_proof \<Rightarrow> (pairing_call list, error + bool) state" where
  "online_verifier_weak_IC C assertions pvkey primary_input prf =
     (if assertions \<and> \<not> (domain_size (pvk_encoded_IC_query pvkey) \<ge> length primary_input)
      then State_Monad.return (Inl Assertion_failed)
      else
        let accumulated_IC =
              accumulate_chunk (g1_add C) (g1_mul C) (g1_zero C)
                (pvk_encoded_IC_query pvkey) primary_input 0
        in if assertions \<and> \<not> is_fully_accumulated accumulated_IC
           then State_Monad.return (Inl Assertion_failed)
           else do {
             let acc = first accumulated_IC;
             let result = True;
             let result = (if \<not> is_well_formed C prf then False else result);
             proof_V_g1_with_acc_precomp \<leftarrow>
               log_call Precompute_g1 (precompute_g1 C (g1_add C (V_g1 prf) acc));
             proof_V_g2_precomp \<leftarrow> log_call Precompute_g2 (precompute_g2 C (V_g2 prf));
             V_1 \<leftarrow> log_call Miller_loop
                     (miller_loop C proof_V_g1_with_acc_precomp (pp_G2_one_precomp pvkey));
             V_2 \<leftarrow> log_call Miller_loop
                     (miller_loop C (pp_G1_one_precomp pvkey) proof_V_g2_precomp);
             V \<leftarrow> log_call Final_exponentiation
                   (final_exponentiation C (gt_mul C V_1 (unitary_inversed C V_2)));
             let result = (if V \<noteq> gt_one C then False else result);
             proof_H_g1_precomp \<leftarrow> log_call Precompute_g1 (precompute_g1 C (H_g1 prf));
             SSP_1 \<leftarrow> log_call Miller_loop
                       (miller_loop C proof_V_g1_with_acc_precomp proof_V_g2_precomp);
             SSP_2 \<leftarrow> log_call Miller_loop
                       (miller_loop C proof_H_g1_precomp (vk_Z_g2_precomp pvkey));
             SSP \<leftarrow> log_call Final_exponentiation
                     (final_exponentiation C
                        (gt_mul C (gt_mul C (unitary_inversed C SSP_1) SSP_2)
                           (pairing_of_g1_and_g2 pvkey)));
             let result = (if SSP \<noteq> gt_one C then False else result);
             proof_V_g1_precomp \<leftarrow> log_call Precompute_g1 (precompute_g1 C (V_g1 prf));
             proof_alpha_V_g1_precomp \<leftarrow>
               log_call Precompute_g1 (precompute_g1 C (alpha_V_g1 prf));
             alpha_V_1 \<leftarrow> log_call Miller_loop
                           (miller_loop C proof_V_g1_precomp (vk_alpha_tilde_g2_precomp pvkey));
             alpha_V_2 \<leftarrow> log_call Miller_loop
                           (miller_loop C proof_alpha_V_g1_precomp (vk_tilde_g2_precomp pvkey));
             alpha_V \<leftarrow> log_call Final_exponentiation
                         (final_exponentiation C
                            (gt_mul C alpha_V_1 (unitary_inversed C alpha_V_2)));
             let result = (if alpha_V \<noteq> gt_one C then False else result);
             State_Monad.return (Inr result)
           })"

definition verifier_weak_IC ::
  "('fr, 'g1, 'g2, 'p1, 'p2, 'k) curve \<Rightarrow> bool \<Rightarrow> ('g1, 'g2) verification_key
     \<Rightarrow> 'fr list \<Rightarrow> ('g1, 'g2) uscs_proof \<Rightarrow> (pairing_call list, error + bool) state" where
  "verifier_weak_IC C assertions vkey primary_input prf = do {
     pvkey \<leftarrow> verifier_process_vk C vkey;
     result \<leftarrow> online_verifier_weak_IC C assertions pvkey primary_input prf;
     State_Monad.return result
   }"

definition online_verifier_strong_IC ::
  "('fr, 'g1, 'g2, 'p1, 'p2, 'k) curve \<Rightarrow> bool \<Rightarrow> ('g1, 'p1, 'p2, 'k) processed_verification_key
     \<Rightarrow> 'fr list \<Rightarrow> ('g1, 'g2) uscs_proof \<Rightarrow> (pairing_call list, error + bool) state" where
  "online_verifier_strong_IC C assertions pvkey primary_input prf =
     (if domain_size (pvk_encoded_IC_query pvkey) \<noteq> length primary_input
      then State_Monad.return (Inr False)
      else online_verifier_weak_IC C assertions pvkey primary_input prf)"

definition verifier_strong_IC ::
  "('fr, 'g1, 'g2, 'p1, 'p2, 'k) curve \<Rightarrow> bool \<Rightarrow> ('g1, 'g2) verification_key
     \<Rightarrow> 'fr list \<Rightarrow> ('g1, 'g2) uscs_proof \<Rightarrow> (pairing_call list, error + bool) state" where
  "verifier_strong_IC C assertions vkey primary_input prf = do {
     pvkey \<leftarrow> verifier_process_vk C vkey;
     result \<leftarrow> online_verifier_strong_IC C assertions pvkey primary_input prf;
     State_Monad.return result
   }"

text \<open>
  The three values the online verifier compares with the identity of the target group,
  as functions of the processed key, the accumulated input \<open>acc\<close> and the proof: each is a
  product of two or three Miller-loop values followed by one final exponentiation.
\<close>

definition equation_V ::
  "('fr, 'g1, 'g2, 'p1, 'p2, 'k) curve \<Rightarrow> ('g1, 'p1, 'p2, 'k) processed_verification_key
     \<Rightarrow> 'g1 \<Rightarrow> ('g1, 'g2) uscs_proof \<Rightarrow> 'k" where
  "equation_V C pvkey acc prf =
     final_exponentiation C
       (gt_mul C
          (miller_loop C (precompute_g1 C (g1_add C (V_g1 prf) acc)) (pp_G2_one_precomp pvkey))
          (unitary_inversed C
             (miller_loop C (pp_G1_one_precomp pvkey) (precompute_g2 C (V_g2 prf)))))"

definition equation_SSP ::
  "('fr, 'g1, 'g2, 'p1, 'p2, 'k) curve \<Rightarrow> ('g1, 'p1, 'p2, 'k) processed_verification_key
     \<Rightarrow> 'g1 \<Rightarrow> ('g1, 'g2) uscs_proof \<Rightarrow> 'k" where
  "equation_SSP C pvkey acc prf =
     final_exponentiation C
       (gt_mul C
          (gt_mul C
             (unitary_inversed C
                (miller_loop C (precompute_g1 C (g1_add C (V_g1 prf) acc))
                   (precompute_g2 C (V_g2 prf))))
             (miller_loop C (precompute_g1 C (H_g1 prf)) (vk_Z_g2_precomp pvkey)))
          (pairing_of_g1_and_g2 pvkey))"

definition equation_alpha ::
  "('fr, 'g1, 'g2, 'p1, 'p2, 'k) curve \<Rightarrow> ('g1, 'p1, 'p2, 'k) processed_verification_key
     \<Rightarrow> ('g1, 'g2) uscs_proof \<Rightarrow> 'k" where
  "equation_alpha C pvkey prf =
     final_exponentiation C
       (gt_mul C
          (miller_loop C (precompute_g1 C (V_g1 prf)) (vk_alpha_tilde_g2_precomp pvkey))
          (unitary_inversed C
             (miller_loop C (precompute_g1 C (alpha_V_g1 prf)) (vk_tilde_g2_precomp pvkey))))"

definition accumulated_input ::
  "('fr, 'g1, 'g2, 'p1, 'p2, 'k) curve \<Rightarrow> ('g1, 'p1, 'p2, 'k) processed_verification_key
     \<Rightarrow> 'fr list \<Rightarrow> 'g1 accumulation_vector" where
  "accumulated_input C pvkey primary_input =
     accumulate_chunk (g1_add C) (g1_mul C) (g1_zero C) (pvk_encoded_IC_query pvkey) primary_input 0"

text \<open>The pairing calls of one run of the online verifier that reaches the equations.\<close>

definition online_verifier_calls :: "pairing_call list" where
  "online_verifier_calls =
     [Precompute_g1, Precompute_g2, Miller_loop, Miller_loop, Final_exponentiation,
      Precompute_g1, Miller_loop, Miller_loop, Final_exponentiation,
      Precompute_g1, Precompute_g1, Miller_loop, Miller_loop, Final_exponentiation]"

section \<open>The USCS-to-SSP reduction\<close>

text \<open>
  The reduction (\<^verbatim>\<open>uscs_to_ssp.hpp\<close>, \<^verbatim>\<open>ssp.hpp\<close>, \<^verbatim>\<open>uscs.hpp\<close>) is not among the sources.
  The generator and the prover read the shape accessors \<^verbatim>\<open>num_variables()\<close>,
  \<^verbatim>\<open>num_inputs()\<close> and \<^verbatim>\<open>degree()\<close> and the members below of what the reduction returns;
  the constraint system is an opaque type \<open>'cs\<close>, and the two maps and the satisfaction
  test are taken as a parameter.
\<close>

record ssp_shape =
  num_variables :: nat
  num_inputs :: nat
  degree :: nat

record 'fr ssp_instance_evaluation = ssp_shape +
  Vt :: "'fr list"
  Ht :: "'fr list"
  Zt :: 'fr

record 'fr ssp_witness = ssp_shape +
  d :: 'fr
  coefficients_for_Vs :: "'fr list"
  coefficients_for_H :: "'fr list"

record ('fr, 'cs) uscs_to_ssp =
  instance_map_with_evaluation :: "'cs \<Rightarrow> 'fr \<Rightarrow> 'fr ssp_instance_evaluation"
  witness_map :: "'cs \<Rightarrow> 'fr list \<Rightarrow> 'fr list \<Rightarrow> 'fr \<Rightarrow> 'fr ssp_witness"
  is_satisfied :: "'cs \<Rightarrow> 'fr list \<Rightarrow> 'fr list \<Rightarrow> bool"

text \<open>
  Modelled from the spec: the shape of the result of \<^verbatim>\<open>instance_map_with_evaluation\<close>
  (the function is not among the sources). The spec's data model gives \<open>Vt\<close> the length
  \<open>num_variables + 2\<close>: the values \<open>V\<^sub>i(t)\<close> for \<open>i\<close> from \<open>0\<close> to \<open>num_variables\<close>, followed by
  the extra dummy slot \<open>V\<^bsub>num_variables+1\<^esub>(t)\<close>; \<open>Ht\<close> holds the powers \<open>t\<^sup>0 \<dots> t\<^sup>d\<close> for the
  degree \<open>d\<close>, and \<open>Zt\<close> is the vanishing polynomial at \<open>t\<close>. The polynomial arithmetic is
  taken as a parameter: \<open>V c i t\<close> is \<open>V\<^sub>i(t)\<close>, \<open>Z c t\<close> is \<open>Z(t)\<close>, \<open>pw t k\<close> is \<open>t\<^sup>k\<close>, and \<open>shape c\<close>
  gives the three shape parameters of the constraint system \<open>c\<close>.
\<close>

definition instance_map_with_evaluation_spec ::
  "('cs \<Rightarrow> nat \<Rightarrow> 'fr \<Rightarrow> 'fr) \<Rightarrow> ('cs \<Rightarrow> 'fr \<Rightarrow> 'fr) \<Rightarrow> ('fr \<Rightarrow> nat \<Rightarrow> 'fr) \<Rightarrow> ('cs \<Rightarrow> ssp_shape)
     \<Rightarrow> 'cs \<Rightarrow> 'fr \<Rightarrow> 'fr ssp_instance_evaluation" where
  "instance_map_with_evaluation_spec V Z pw shape c t =
     \<lparr>num_variables = num_variables (shape c),
      num_inputs = num_inputs (shape c),
      degree = degree (shape c),
      Vt = map (\<lambda>i. V c i t) [0..<num_variables (shape c) + 2],
      Ht = map (pw t) [0..<degree (shape c) + 1],
      Zt = Z c t\<rparr>"

section \<open>Proving key and key pair\<close>

record ('g1, 'g2, 'cs) proving_key =
  V_g1_query :: "'g1 list"
  alpha_V_g1_query :: "'g1 list"
  H_g1_query :: "'g1 list"
  V_g2_query :: "'g2 list"
  cs :: 'cs

record ('g1, 'g2, 'cs) keypair =
  pk :: "('g1, 'g2, 'cs) proving_key"
  vk :: "('g1, 'g2) verification_key"

section \<open>The generator\<close>

text \<open>
  The three random draws \<open>t\<close>, \<open>alpha\<close> and \<open>tilde\<close> are arguments, in the order the code
  draws them. \<open>Vt_table\<close> is the vector the generator builds from the instance by
  \<^verbatim>\<open>emplace_back(ssp_inst.Zt)\<close>. A \<^verbatim>\<open>size_t\<close> difference wraps around, and no vector has
  the size of a wrapped value, so the assertion on the size of \<open>Vt_table_minus_Xt_table\<close>
  is written without subtraction. The normalisation under \<^verbatim>\<open>USE_MIXED_ADDITION\<close> changes
  the representation of group elements only and is left out, and so is the printing of
  sizes.
\<close>

definition Vt_table :: "'fr ssp_instance_evaluation \<Rightarrow> 'fr list" where
  "Vt_table ssp_inst = Vt ssp_inst @ [Zt ssp_inst]"

definition generator_assertions ::
  "('fr, 'g1, 'g2, 'p1, 'p2, 'k) curve \<Rightarrow> 'fr ssp_instance_evaluation \<Rightarrow> bool" where
  "generator_assertions C ssp_inst =
     (let Ht_table = Ht ssp_inst;
          Xt_table = take (num_inputs ssp_inst + 1) (Vt_table ssp_inst);
          Vt_table_minus_Xt_table = drop (num_inputs ssp_inst + 1) (Vt_table ssp_inst)
      in length (Vt_table ssp_inst) = num_variables ssp_inst + 2 \<and>
         length Ht_table = degree ssp_inst + 1 \<and>
         length Xt_table = num_inputs ssp_inst + 1 \<and>
         length Vt_table_minus_Xt_table + num_inputs ssp_inst + 1 = num_variables ssp_inst + 2 \<and>
         list_all (\<lambda>i. Xt_table ! i \<noteq> fr_zero C) [0..<num_inputs ssp_inst + 1])"

definition generator ::
  "('fr, 'g1, 'g2, 'p1, 'p2, 'k) curve \<Rightarrow> ('fr, 'cs) uscs_to_ssp \<Rightarrow> bool
     \<Rightarrow> 'fr \<Rightarrow> 'fr \<Rightarrow> 'fr \<Rightarrow> 'cs \<Rightarrow> error + ('g1, 'g2, 'cs) keypair" where
  "generator C R assertions t alpha tilde c =
     (let ssp_inst = instance_map_with_evaluation R c t;
          Ht_table = Ht ssp_inst
      in if \<not> num_inputs ssp_inst + 1 \<le> length (Vt_table ssp_inst) then Inl Out_of_bounds
         else
           let Xt_table = take (num_inputs ssp_inst + 1) (Vt_table ssp_inst);
               Vt_table_minus_Xt_table = drop (num_inputs ssp_inst + 1) (Vt_table ssp_inst)
           in if assertions \<and> \<not> generator_assertions C ssp_inst then Inl Assertion_failed
              else
                let V_g1_query = batch_exp (g1_mul C) (g1_one C) Vt_table_minus_Xt_table;
                    alpha_V_g1_query =
                      batch_exp_with_coeff (fr_mul C) (g1_mul C) (g1_one C) alpha
                        Vt_table_minus_Xt_table;
                    H_g1_query = batch_exp (g1_mul C) (g1_one C) Ht_table;
                    V_g2_query = batch_exp (g2_mul C) (g2_one C) (Vt_table ssp_inst);
                    tilde_g2 = g2_mul C tilde (g2_one C);
                    alpha_tilde_g2 = g2_mul C (fr_mul C alpha tilde) (g2_one C);
                    Z_g2 = g2_mul C (Zt ssp_inst) (g2_one C);
                    encoded_IC_base = g1_mul C (Xt_table ! 0) (g1_one C);
                    encoded_IC_values = batch_exp (g1_mul C) (g1_one C) (drop 1 Xt_table);
                    encoded_IC_query = accumulation_vector_of encoded_IC_base encoded_IC_values;
                    vk = \<lparr>tilde_g2 = tilde_g2, alpha_tilde_g2 = alpha_tilde_g2, Z_g2 = Z_g2,
                          encoded_IC_query = encoded_IC_query\<rparr>;
                    cs_copy = c;
                    pk = \<lparr>V_g1_query = V_g1_query, alpha_V_g1_query = alpha_V_g1_query,
                          H_g1_query = H_g1_query, V_g2_query = V_g2_query, cs = cs_copy\<rparr>
                in Inr \<lparr>pk = pk, vk = vk\<rparr>)"

text \<open>
  The generator takes its argument by reference to a constant, copies it into the local
  \<^verbatim>\<open>cs_copy\<close> and moves the copy into the proving key. To state what a call does to the
  caller's object, objects of the constraint-system type live in a store, a list indexed
  by address whose entry is \<open>None\<close> once the object has been moved from; the argument is an
  address into it. A copy construction reads its source and places an equal object at a
  fresh address; a move construction places the object of its source at a fresh address
  and leaves the source moved from. The call returns the key pair, the address at which
  the constraint system of the proving key lives, and the store it leaves. A reference
  to no object is undefined behaviour.
\<close>

type_synonym 'cs store = "'cs option list"

definition copy_construct :: "'cs store \<Rightarrow> nat \<Rightarrow> (nat \<times> 'cs store) option" where
  "copy_construct st src =
     (if src < length st
      then (case st ! src of None \<Rightarrow> None | Some c \<Rightarrow> Some (length st, st @ [Some c]))
      else None)"

definition move_construct :: "'cs store \<Rightarrow> nat \<Rightarrow> (nat \<times> 'cs store) option" where
  "move_construct st src =
     (if src < length st
      then (case st ! src of
              None \<Rightarrow> None
            | Some c \<Rightarrow> Some (length st, st[src := None] @ [Some c]))
      else None)"

definition generator_call ::
  "('fr, 'g1, 'g2, 'p1, 'p2, 'k) curve \<Rightarrow> ('fr, 'cs) uscs_to_ssp \<Rightarrow> bool
     \<Rightarrow> 'fr \<Rightarrow> 'fr \<Rightarrow> 'fr \<Rightarrow> nat \<Rightarrow> 'cs store
     \<Rightarrow> (error + ('g1, 'g2, 'cs) keypair \<times> nat) \<times> 'cs store" where
  "generator_call C R assertions t alpha tilde ref st =
     (if \<not> ref < length st then (Inl Out_of_bounds, st)
      else
        case st ! ref of
          None \<Rightarrow> (Inl Out_of_bounds, st)
        | Some c \<Rightarrow>
            (case generator C R assertions t alpha tilde c of
               Inl e \<Rightarrow> (Inl e, st)
             | Inr kp \<Rightarrow>
                 (case copy_construct st ref of
                    None \<Rightarrow> (Inl Out_of_bounds, st)
                  | Some (cs_copy, st1) \<Rightarrow>
                      (case move_construct st1 cs_copy of
                         None \<Rightarrow> (Inl Out_of_bounds, st1)
                       | Some (pk_cs, st2) \<Rightarrow> (Inr (kp, pk_cs), st2)))))"

section \<open>The prover\<close>

text \<open>
  The random draw \<open>d\<close> is the argument \<open>d0\<close>. The code reads \<^verbatim>\<open>pk.constraint_system\<close>; the
  member of the proving key is \<open>cs\<close>. The assertions on the sizes of the two \<open>G1\<close> queries
  are written without subtraction, as in the generator. \<open>prover_in_bounds\<close> collects what
  the indices and iterator ranges of the body need to stay inside their vectors.
  \<open>slice xs a b\<close> is the half-open range \<open>[a, b)\<close> of a vector, the notation in which the
  prover's sums are specified.
\<close>

definition slice :: "'a list \<Rightarrow> nat \<Rightarrow> nat \<Rightarrow> 'a list" where
  "slice xs a b = drop a (take b xs)"

definition prover_assertions ::
  "('fr, 'cs) uscs_to_ssp \<Rightarrow> ('g1, 'g2, 'cs) proving_key \<Rightarrow> 'fr list \<Rightarrow> 'fr list
     \<Rightarrow> 'fr ssp_witness \<Rightarrow> bool" where
  "prover_assertions R pkey primary_input auxiliary_input ssp_wit =
     (is_satisfied R (cs pkey) primary_input auxiliary_input \<and>
      length (V_g1_query pkey) + num_inputs ssp_wit + 1 = num_variables ssp_wit + 2 \<and>
      length (alpha_V_g1_query pkey) + num_inputs ssp_wit + 1 = num_variables ssp_wit + 2 \<and>
      length (H_g1_query pkey) = degree ssp_wit + 1 \<and>
      length (V_g2_query pkey) = num_variables ssp_wit + 2)"

definition prover_in_bounds :: "('g1, 'g2, 'cs) proving_key \<Rightarrow> 'fr ssp_witness \<Rightarrow> bool" where
  "prover_in_bounds pkey ssp_wit =
     (V_g1_query pkey \<noteq> [] \<and> alpha_V_g1_query pkey \<noteq> [] \<and> V_g2_query pkey \<noteq> [] \<and>
      num_inputs ssp_wit \<le> num_variables ssp_wit \<and>
      num_variables ssp_wit - num_inputs ssp_wit \<le> length (V_g1_query pkey) \<and>
      num_variables ssp_wit - num_inputs ssp_wit \<le> length (alpha_V_g1_query pkey) \<and>
      num_variables ssp_wit \<le> length (coefficients_for_Vs ssp_wit) \<and>
      degree ssp_wit + 1 \<le> length (H_g1_query pkey) \<and>
      degree ssp_wit + 1 \<le> length (coefficients_for_H ssp_wit) \<and>
      num_variables ssp_wit + 1 \<le> length (V_g2_query pkey))"

definition prover ::
  "('fr, 'g1, 'g2, 'p1, 'p2, 'k) curve \<Rightarrow> ('fr, 'cs) uscs_to_ssp \<Rightarrow> bool \<Rightarrow> 'fr
     \<Rightarrow> ('g1, 'g2, 'cs) proving_key \<Rightarrow> 'fr list \<Rightarrow> 'fr list \<Rightarrow> error + ('g1, 'g2) uscs_proof" where
  "prover C R assertions d0 pkey primary_input auxiliary_input =
     (let ssp_wit = witness_map R (cs pkey) primary_input auxiliary_input d0
      in if assertions \<and> \<not> prover_assertions R pkey primary_input auxiliary_input ssp_wit
         then Inl Assertion_failed
         else if \<not> prover_in_bounds pkey ssp_wit then Inl Out_of_bounds
         else
           let V_g1 = g1_mul C (d ssp_wit) (V_g1_query pkey ! (length (V_g1_query pkey) - 1));
               alpha_V_g1 =
                 g1_mul C (d ssp_wit)
                   (alpha_V_g1_query pkey ! (length (alpha_V_g1_query pkey) - 1));
               H_g1 = g1_zero C;
               V_g2 =
                 g2_add C (V_g2_query pkey ! 0)
                   (g2_mul C (d ssp_wit) (V_g2_query pkey ! (length (V_g2_query pkey) - 1)));
               aux_coefficients =
                 take (num_variables ssp_wit - num_inputs ssp_wit)
                   (drop (num_inputs ssp_wit) (coefficients_for_Vs ssp_wit));
               V_g1 =
                 g1_add C V_g1
                   (multiexp (g1_add C) (g1_mul C) (g1_zero C)
                      (take (num_variables ssp_wit - num_inputs ssp_wit) (V_g1_query pkey))
                      aux_coefficients);
               alpha_V_g1 =
                 g1_add C alpha_V_g1
                   (multiexp (g1_add C) (g1_mul C) (g1_zero C)
                      (take (num_variables ssp_wit - num_inputs ssp_wit) (alpha_V_g1_query pkey))
                      aux_coefficients);
               H_g1 =
                 g1_add C H_g1
                   (multiexp (g1_add C) (g1_mul C) (g1_zero C)
                      (take (degree ssp_wit + 1) (H_g1_query pkey))
                      (take (degree ssp_wit + 1) (coefficients_for_H ssp_wit)));
               V_g2 =
                 g2_add C V_g2
                   (multiexp (g2_add C) (g2_mul C) (g2_zero C)
                      (take (num_variables ssp_wit) (drop 1 (V_g2_query pkey)))
                      (take (num_variables ssp_wit) (coefficients_for_Vs ssp_wit)))
           in Inr \<lparr>V_g1 = V_g1, alpha_V_g1 = alpha_V_g1, H_g1 = H_g1, V_g2 = V_g2\<rparr>)"

section \<open>A small curve for concrete runs\<close>

text \<open>
  The scalar field is the ring of integers modulo \<open>5\<close> (the numeral type \<open>5\<close>); both source
  groups are its additive group, with generator \<open>1\<close>, and every element is well formed.
  Miller-loop values live in the integers modulo \<open>11\<close>, whose multiplicative group has
  order \<open>10\<close>; the unitary inverse is the inverse \<open>f\<^sup>9\<close>, and the final exponentiation raises
  to the power \<open>(11 - 1) / 5 = 2\<close>, onto the subgroup of order \<open>5\<close>. The Miller loop of \<open>a\<close>
  and \<open>b\<close> is \<open>2\<close> to the power of the representative of \<open>a \<cdot> b\<close> in \<open>0 \<dots> 4\<close>, given as
  a table (\<open>2\<^sup>4 = 16 = 5\<close> modulo \<open>11\<close>), so the pairing of the generators is \<open>4\<close>.
\<close>

definition toy_power_of_two :: "5 \<Rightarrow> 11" where
  "toy_power_of_two e =
     (if e = 0 then 1 else if e = 1 then 2 else if e = 2 then 4 else if e = 3 then 8 else 5)"

definition toy_curve :: "(5, 5, 5, 5, 5, 11) curve" where
  "toy_curve =
     \<lparr>fr_zero = 0,
      fr_mul = (\<lambda>a b. a * b),
      g1_one = 1,
      g1_zero = 0,
      g1_add = (\<lambda>a b. a + b),
      g1_mul = (\<lambda>s g. s * g),
      g1_is_well_formed = (\<lambda>g. True),
      g2_one = 1,
      g2_zero = 0,
      g2_add = (\<lambda>a b. a + b),
      g2_mul = (\<lambda>s g. s * g),
      g2_is_well_formed = (\<lambda>g. True),
      precompute_g1 = (\<lambda>g. g),
      precompute_g2 = (\<lambda>g. g),
      miller_loop = (\<lambda>p q. toy_power_of_two (p * q)),
      final_exponentiation = (\<lambda>f. f ^ 2),
      gt_mul = (\<lambda>a b. a * b),
      unitary_inversed = (\<lambda>f. f ^ 9),
      gt_one = 1\<rparr>"

text \<open>
  A constraint system is a list of constraints, each the list of the coefficients of the
  constant \<open>1\<close> and of the variables. The system below has one input \<open>x\<^sub>1\<close>, one auxiliary
  variable \<open>y\<^sub>1\<close> and the constraint \<open>(1 + x\<^sub>1 + 2 y\<^sub>1)\<^sup>2 = 1\<close>. Its domain is \<open>{1, 4}\<close>, of
  degree \<open>2\<close>, with the constraint at the point \<open>1\<close>: at \<open>t = 1\<close> every \<open>V\<^sub>i\<close> takes the
  coefficient of the constraint, the powers of \<open>t\<close> are \<open>1\<close>, and \<open>Z(1) = 0\<close>. The reduction
  of the small curve returns this evaluation for every point. Its witness carries the
  assignment and, as coefficients of \<open>H\<close>, those of \<open>(1 - d\<^sup>2) + 3 d X + d\<^sup>2 X\<^sup>2\<close>, the
  quotient for the assignment \<open>x\<^sub>1 = 4, y\<^sub>1 = 2\<close>.
\<close>

definition toy_cs :: "5 list list" where
  "toy_cs = [[1, 1, 2]]"

definition toy_instance :: "5 ssp_instance_evaluation" where
  "toy_instance =
     \<lparr>num_variables = 2, num_inputs = 1, degree = 2, Vt = [1, 1, 2], Ht = [1, 1, 1], Zt = 0\<rparr>"

definition toy_witness :: "5 list \<Rightarrow> 5 list \<Rightarrow> 5 \<Rightarrow> 5 ssp_witness" where
  "toy_witness x y d0 =
     \<lparr>num_variables = 2, num_inputs = 1, degree = 2, d = d0,
      coefficients_for_Vs = x @ y,
      coefficients_for_H = [1 - d0 * d0, 3 * d0, d0 * d0]\<rparr>"

definition toy_is_satisfied :: "5 list list \<Rightarrow> 5 list \<Rightarrow> 5 list \<Rightarrow> bool" where
  "toy_is_satisfied c x y = list_all (\<lambda>k. (sum_list (map2 (*) k (1 # x @ y))) ^ 2 = 1) c"

definition toy_reduction :: "(5, 5 list list) uscs_to_ssp" where
  "toy_reduction =
     \<lparr>instance_map_with_evaluation = (\<lambda>c t. toy_instance),
      witness_map = (\<lambda>c x y d0. toy_witness x y d0),
      is_satisfied = toy_is_satisfied\<rparr>"

text \<open>The key pair the generator returns for the draws \<open>t = 1\<close>, \<open>alpha = 1\<close>, \<open>tilde = 2\<close>.\<close>

definition toy_vk :: "(5, 5) verification_key" where
  "toy_vk =
     \<lparr>tilde_g2 = 2, alpha_tilde_g2 = 2, Z_g2 = 0,
      encoded_IC_query = \<lparr>first = 1, rest = [(0, 1)], rest_domain_size = 1\<rparr>\<rparr>"

definition toy_pk :: "(5, 5, 5 list list) proving_key" where
  "toy_pk =
     \<lparr>V_g1_query = [2, 0], alpha_V_g1_query = [2, 0], H_g1_query = [1, 1, 1],
      V_g2_query = [1, 1, 2, 0], cs = toy_cs\<rparr>"

definition toy_keypair :: "(5, 5, 5 list list) keypair" where
  "toy_keypair = \<lparr>pk = toy_pk, vk = toy_vk\<rparr>"

definition toy_pvk :: "(5, 5, 5, 11) processed_verification_key" where
  "toy_pvk = fst (run_state (verifier_process_vk toy_curve toy_vk) [])"

text \<open>
  A proof that satisfies the three equations for the input \<open>x\<^sub>1 = 0\<close>, and the proof the
  prover returns for \<open>x\<^sub>1 = 4, y\<^sub>1 = 2\<close> with the draw \<open>d = 3\<close>.
\<close>

definition toy_proof_0 :: "(5, 5) uscs_proof" where
  "toy_proof_0 = \<lparr>V_g1 = 0, alpha_V_g1 = 0, H_g1 = 0, V_g2 = 1\<rparr>"

definition toy_proof_4 :: "(5, 5) uscs_proof" where
  "toy_proof_4 = \<lparr>V_g1 = 4, alpha_V_g1 = 4, H_g1 = 0, V_g2 = 4\<rparr>"

text \<open>
  An instance evaluation of the shape the spec's data model describes, for the same
  constraint system and the same point, and the reduction that returns it.
\<close>

definition toy_spec_instance :: "5 ssp_instance_evaluation" where
  "toy_spec_instance =
     instance_map_with_evaluation_spec
       (\<lambda>c i t. if i < 3 then hd c ! i else 0) (\<lambda>c t. t * t - 1)
       (\<lambda>t k. t ^ k) (\<lambda>c. \<lparr>num_variables = 2, num_inputs = 1, degree = 2\<rparr>) toy_cs 1"

definition toy_spec_reduction :: "(5, 5 list list) uscs_to_ssp" where
  "toy_spec_reduction =
     \<lparr>instance_map_with_evaluation = (\<lambda>c t. toy_spec_instance),
      witness_map = (\<lambda>c x y d0. toy_witness x y d0),
      is_satisfied = toy_is_satisfied\<rparr>"

text \<open>A store of the caller with the constraint system at the address \<open>0\<close>.\<close>

definition toy_store :: "5 list list store" where
  "toy_store = [Some toy_cs]"

text \<open>The key pair the generator returns for the draws \<open>t = 1\<close>, \<open>alpha = 3\<close>, \<open>tilde = 2\<close>.\<close>

definition toy_keypair_3 :: "(5, 5, 5 list list) keypair" where
  "toy_keypair_3 =
     \<lparr>pk = \<lparr>V_g1_query = [2, 0], alpha_V_g1_query = [1, 0], H_g1_query = [1, 1, 1],
             V_g2_query = [1, 1, 2, 0], cs = toy_cs\<rparr>,
      vk = \<lparr>tilde_g2 = 2, alpha_tilde_g2 = 1, Z_g2 = 0,
             encoded_IC_query = \<lparr>first = 1, rest = [(0, 1)], rest_domain_size = 1\<rparr>\<rparr>\<rparr>"

section \<open>Evaluation and run lemmas\<close>

lemma run_state_log_call [simp]: "run_state (log_call c v) l = (v, l @ [c])"
  by (simp add: log_call_def)

lemmas toy_defs = toy_curve_def toy_power_of_two_def toy_cs_def toy_instance_def toy_witness_def
  toy_is_satisfied_def toy_reduction_def toy_vk_def toy_pk_def toy_keypair_def toy_pvk_def
  toy_proof_0_def toy_proof_4_def toy_spec_instance_def toy_spec_reduction_def toy_store_def
  toy_keypair_3_def

lemmas algorithm_defs = generator_def generator_assertions_def Vt_table_def batch_exp_def
  batch_exp_with_coeff_def accumulation_vector_of_def prover_def prover_assertions_def
  prover_in_bounds_def multiexp_def slice_def verifier_process_vk_def
  online_verifier_weak_IC_def verifier_weak_IC_def online_verifier_strong_IC_def
  verifier_strong_IC_def accumulate_chunk_def accumulated_input_def in_chunk_def domain_size_def
  is_fully_accumulated_def is_well_formed_def default_proof_def equation_V_def equation_SSP_def
  equation_alpha_def instance_map_with_evaluation_spec_def generator_call_def copy_construct_def
  move_construct_def Let_def

lemma generator_toy: "generator toy_curve toy_reduction True 1 1 2 toy_cs = Inr toy_keypair"
  by (simp add: toy_defs algorithm_defs)

lemma toy_instance_of_reduction:
  "toy_instance = instance_map_with_evaluation toy_reduction toy_cs 1"
  by (simp add: toy_reduction_def)

lemma online_verifier_weak_IC_run:
  assumes "assertions \<Longrightarrow>
             length primary_input \<le> domain_size (pvk_encoded_IC_query pvkey) \<and>
             is_fully_accumulated (accumulated_input C pvkey primary_input)"
  shows "run_state (online_verifier_weak_IC C assertions pvkey primary_input prf) l =
           (Inr (is_well_formed C prf \<and>
                 equation_V C pvkey (first (accumulated_input C pvkey primary_input)) prf = gt_one C \<and>
                 equation_SSP C pvkey (first (accumulated_input C pvkey primary_input)) prf = gt_one C \<and>
                 equation_alpha C pvkey prf = gt_one C),
            l @ online_verifier_calls)"
  using assms
  by (auto simp add: online_verifier_weak_IC_def accumulated_input_def Let_def equation_V_def
      equation_SSP_def equation_alpha_def online_verifier_calls_def)

lemma online_verifier_weak_IC_abort:
  assumes "assertions"
    and "\<not> (length primary_input \<le> domain_size (pvk_encoded_IC_query pvkey) \<and>
             is_fully_accumulated (accumulated_input C pvkey primary_input))"
  shows "run_state (online_verifier_weak_IC C assertions pvkey primary_input prf) l =
           (Inl Assertion_failed, l)"
  using assms
  by (auto simp add: online_verifier_weak_IC_def accumulated_input_def Let_def)

lemma pvk_encoded_IC_query_process_vk:
  "pvk_encoded_IC_query (fst (run_state (verifier_process_vk C vkey) l)) = encoded_IC_query vkey"
  by (simp add: verifier_process_vk_def)

lemma prover_in_bounds_from_assertions:
  assumes "prover_assertions R pkey x y ssp_wit"
    and "num_inputs ssp_wit \<le> num_variables ssp_wit"
    and "num_variables ssp_wit \<le> length (coefficients_for_Vs ssp_wit)"
    and "degree ssp_wit + 1 \<le> length (coefficients_for_H ssp_wit)"
  shows "prover_in_bounds pkey ssp_wit"
  using assms by (auto simp add: prover_assertions_def prover_in_bounds_def)

lemma generator_toy_3: "generator toy_curve toy_reduction True 1 3 2 toy_cs = Inr toy_keypair_3"
  by (simp add: toy_defs algorithm_defs)

lemma run_state_verifier_process_vk:
  "run_state (verifier_process_vk C vkey) l =
     (\<lparr>pp_G1_one_precomp = precompute_g1 C (g1_one C),
       pp_G2_one_precomp = precompute_g2 C (g2_one C),
       vk_tilde_g2_precomp = precompute_g2 C (tilde_g2 vkey),
       vk_alpha_tilde_g2_precomp = precompute_g2 C (alpha_tilde_g2 vkey),
       vk_Z_g2_precomp = precompute_g2 C (Z_g2 vkey),
       pairing_of_g1_and_g2 =
         miller_loop C (precompute_g1 C (g1_one C)) (precompute_g2 C (g2_one C)),
       pvk_encoded_IC_query = encoded_IC_query vkey\<rparr>,
      l @ [Precompute_g1, Precompute_g2, Precompute_g2, Precompute_g2, Precompute_g2,
           Miller_loop])"
  by (simp add: verifier_process_vk_def)

text \<open>
  What the generator returns once the instance evaluation passes its sanity checks, in
  either build, and what a returned key pair holds.
\<close>

lemma generator_in_bounds:
  assumes "generator_assertions C ssp_inst"
  shows "num_inputs ssp_inst + 1 \<le> length (Vt_table ssp_inst)"
  using assms by (auto simp add: generator_assertions_def Let_def)

lemma generator_total:
  assumes "generator_assertions C (instance_map_with_evaluation R c t)"
  shows "\<exists>kp. generator C R assertions t alpha tilde c = Inr kp"
  using assms generator_in_bounds [OF assms]
  by (simp add: generator_def Let_def)

lemma generator_shapes:
  assumes gen: "generator C R assertions t alpha tilde c = Inr kp"
    and inst: "ssp_inst = instance_map_with_evaluation R c t"
    and checks: "generator_assertions C ssp_inst"
  shows "int (length (V_g1_query (pk kp))) =
           int (num_variables ssp_inst) - int (num_inputs ssp_inst) + 1"
    and "int (length (alpha_V_g1_query (pk kp))) =
           int (num_variables ssp_inst) - int (num_inputs ssp_inst) + 1"
    and "length (H_g1_query (pk kp)) = degree ssp_inst + 1"
    and "length (V_g2_query (pk kp)) = num_variables ssp_inst + 2"
    and "domain_size (encoded_IC_query (vk kp)) = num_inputs ssp_inst"
  using gen checks
  by (auto simp add: generator_def inst [symmetric] Let_def generator_assertions_def
      batch_exp_def batch_exp_with_coeff_def accumulation_vector_of_def domain_size_def
      split: if_splits)

lemma generator_cs:
  assumes "generator C R assertions t alpha tilde c = Inr kp"
  shows "cs (pk kp) = c"
  using assms by (auto simp add: generator_def Let_def split: if_splits)

lemma generator_vk:
  assumes gen: "generator C R assertions t alpha tilde c = Inr kp"
    and inst: "ssp_inst = instance_map_with_evaluation R c t"
  shows "tilde_g2 (vk kp) = g2_mul C tilde (g2_one C)"
    and "alpha_tilde_g2 (vk kp) = g2_mul C (fr_mul C alpha tilde) (g2_one C)"
    and "Z_g2 (vk kp) = g2_mul C (Zt ssp_inst) (g2_one C)"
    and "encoded_IC_query (vk kp) =
           accumulation_vector_of (first (encoded_IC_query (vk kp)))
             (batch_exp (g1_mul C) (g1_one C)
                (drop 1 (take (num_inputs ssp_inst + 1) (Vt_table ssp_inst))))"
    and "length (batch_exp (g1_mul C) (g1_one C)
                   (drop 1 (take (num_inputs ssp_inst + 1) (Vt_table ssp_inst)))) =
           num_inputs ssp_inst"
  using gen
  by (auto simp add: generator_def inst [symmetric] Let_def batch_exp_def
      accumulation_vector_of_def split: if_splits)

lemma dense_fully_accumulated:
  assumes "length scalars = length values"
  shows "is_fully_accumulated
           (accumulate_chunk add mul zero (accumulation_vector_of base values) scalars 0)"
proof -
  have covered: "in_chunk 0 (length scalars) e"
    if "e \<in> set (zip [0..<length values] values)" for e
  proof -
    from that have "(fst e, snd e) \<in> set (zip [0..<length values] values)"
      by simp
    then have "fst e \<in> set [0..<length values]"
      by (rule set_zip_leftD)
    then show ?thesis
      using assms by (simp add: in_chunk_def)
  qed
  then show ?thesis
    by (simp add: is_fully_accumulated_def accumulate_chunk_def accumulation_vector_of_def Let_def
        filter_empty_conv)
qed

text \<open>The elements of the scalar field of the small curve, and its pairing laws.\<close>

lemma five_cases: "(x :: 5) = 0 \<or> x = 1 \<or> x = 2 \<or> x = 3 \<or> x = 4"
proof (cases x)
  case (of_int z)
  then have "z = 0 \<or> z = 1 \<or> z = 2 \<or> z = 3 \<or> z = 4" by auto
  with of_int show ?thesis by auto
qed

lemma toy_nondegenerate_G1:
  "final_exponentiation toy_curve
     (gt_mul toy_curve
        (miller_loop toy_curve (precompute_g1 toy_curve P)
           (precompute_g2 toy_curve (g2_one toy_curve)))
        (unitary_inversed toy_curve
           (miller_loop toy_curve (precompute_g1 toy_curve (g1_one toy_curve))
              (precompute_g2 toy_curve (g2_one toy_curve))))) =
     gt_one toy_curve \<Longrightarrow> P = g1_one toy_curve"
  using five_cases [of P] by (auto simp add: toy_curve_def toy_power_of_two_def)

lemma toy_nondegenerate_G2:
  "final_exponentiation toy_curve
     (gt_mul toy_curve
        (miller_loop toy_curve (precompute_g1 toy_curve (g1_one toy_curve))
           (precompute_g2 toy_curve (g2_mul toy_curve s (g2_one toy_curve))))
        (unitary_inversed toy_curve
           (miller_loop toy_curve (precompute_g1 toy_curve (g1_one toy_curve))
              (precompute_g2 toy_curve (g2_mul toy_curve s' (g2_one toy_curve)))))) =
     gt_one toy_curve \<Longrightarrow> s = s'"
  using five_cases [of s] five_cases [of s']
  by (auto simp add: toy_curve_def toy_power_of_two_def)

lemma toy_pairing_cancels:
  "final_exponentiation toy_curve
     (gt_mul toy_curve
        (gt_mul toy_curve
           (unitary_inversed toy_curve
              (miller_loop toy_curve (precompute_g1 toy_curve (g1_one toy_curve))
                 (precompute_g2 toy_curve (g2_one toy_curve))))
           (miller_loop toy_curve (precompute_g1 toy_curve (g1_one toy_curve))
              (precompute_g2 toy_curve (g2_mul toy_curve s (g2_one toy_curve)))))
        (miller_loop toy_curve (precompute_g1 toy_curve (g1_one toy_curve))
           (precompute_g2 toy_curve (g2_one toy_curve)))) =
     gt_one toy_curve \<Longrightarrow> s = fr_zero toy_curve"
  using five_cases [of s] by (auto simp add: toy_curve_def toy_power_of_two_def)

section \<open>Properties of the weak verifier\<close>

text \<open>
  On every run of \<^verbatim>\<open>online_verifier_weak_IC\<close> on which no active assertion fails, the
  function returns a verdict, the verdict is true exactly when the proof is well formed
  and each of the three values (equation V, equation SSP, equation alpha) is the identity
  of the target group, and the run makes all fourteen pairing calls of the three
  equations, whatever the outcome of each check.
\<close>

lemma online_verifier_weak_IC_verdict:
  assumes "assertions \<Longrightarrow>
             length primary_input \<le> domain_size (pvk_encoded_IC_query pvkey) \<and>
             is_fully_accumulated (accumulated_input C pvkey primary_input)"
  shows "(\<exists>b. fst (run_state (online_verifier_weak_IC C assertions pvkey primary_input prf) l) = Inr b) \<and>
         (fst (run_state (online_verifier_weak_IC C assertions pvkey primary_input prf) l) = Inr True \<longleftrightarrow>
            is_well_formed C prf \<and>
            equation_V C pvkey (first (accumulated_input C pvkey primary_input)) prf = gt_one C \<and>
            equation_SSP C pvkey (first (accumulated_input C pvkey primary_input)) prf = gt_one C \<and>
            equation_alpha C pvkey prf = gt_one C) \<and>
         snd (run_state (online_verifier_weak_IC C assertions pvkey primary_input prf) l) =
           l @ online_verifier_calls"
  by (simp add: online_verifier_weak_IC_run [OF assms])

text \<open>
  The honest key of the small curve, the full input \<open>x\<^sub>1 = 4\<close> and the prover's proof for
  it, in a build with assertions: the verdict is true and the log holds the fourteen calls.
\<close>

lemma online_verifier_weak_IC_verdict_full_input:
  "fst (run_state (online_verifier_weak_IC toy_curve True toy_pvk [4] toy_proof_4) []) = Inr True \<and>
   snd (run_state (online_verifier_weak_IC toy_curve True toy_pvk [4] toy_proof_4) []) =
     online_verifier_calls"
proof -
  have pre: "length [4 :: 5] \<le> domain_size (pvk_encoded_IC_query toy_pvk) \<and>
             is_fully_accumulated (accumulated_input toy_curve toy_pvk [4])"
    by (simp add: toy_defs algorithm_defs)
  have eqs: "is_well_formed toy_curve toy_proof_4 \<and>
      equation_V toy_curve toy_pvk (first (accumulated_input toy_curve toy_pvk [4])) toy_proof_4 =
        gt_one toy_curve \<and>
      equation_SSP toy_curve toy_pvk (first (accumulated_input toy_curve toy_pvk [4])) toy_proof_4 =
        gt_one toy_curve \<and>
      equation_alpha toy_curve toy_pvk toy_proof_4 = gt_one toy_curve"
    by (simp add: toy_defs algorithm_defs)
  from online_verifier_weak_IC_verdict [of True "[4]" toy_pvk toy_curve toy_proof_4 "[]"] pre eqs
  show ?thesis by simp
qed

text \<open>
  In a build without assertions every run is such a run: for every processed key, input
  and proof the verdict is the conjunction of the four checks and the log holds the
  fourteen calls.
\<close>

lemma online_verifier_weak_IC_verdict_without_assertions:
  "run_state (online_verifier_weak_IC C False pvkey primary_input prf) l =
     (Inr (is_well_formed C prf \<and>
           equation_V C pvkey (first (accumulated_input C pvkey primary_input)) prf = gt_one C \<and>
           equation_SSP C pvkey (first (accumulated_input C pvkey primary_input)) prf = gt_one C \<and>
           equation_alpha C pvkey prf = gt_one C),
      l @ online_verifier_calls)"
  by (rule online_verifier_weak_IC_run) simp

text \<open>
  Claim C1 at the input where the code departs from it. In a build with assertions, for
  the processed honest key of the small curve (one input position) and the empty input,
  which is no longer than the domain of the IC query, the proof is well formed and the
  three equations hold, yet the run of \<^verbatim>\<open>online_verifier_weak_IC\<close> stops at the assertion
  that the accumulation is complete: it returns no verdict and makes no pairing call.
\<close>

theorem online_verifier_weak_IC_short_input_failing_input:
  "length ([] :: 5 list) \<le> domain_size (pvk_encoded_IC_query toy_pvk) \<and>
   is_well_formed toy_curve toy_proof_0 \<and>
   equation_V toy_curve toy_pvk (first (accumulated_input toy_curve toy_pvk [])) toy_proof_0 =
     gt_one toy_curve \<and>
   equation_SSP toy_curve toy_pvk (first (accumulated_input toy_curve toy_pvk [])) toy_proof_0 =
     gt_one toy_curve \<and>
   equation_alpha toy_curve toy_pvk toy_proof_0 = gt_one toy_curve \<and>
   run_state (online_verifier_weak_IC toy_curve True toy_pvk [] toy_proof_0) [] =
     (Inl Assertion_failed, [])"
  by (simp add: toy_defs algorithm_defs)

section \<open>Properties of the prover\<close>

text \<open>
  Claim C2. Let \<open>d0\<close> be the blinding scalar and \<open>ssp_wit\<close> the witness the reduction
  returns for it, carrying \<open>d0\<close> as its \<open>d\<close>. If the prover's assertions hold (the inputs
  satisfy the constraint system of the key and the four queries have the asserted sizes),
  the witness has no more inputs than variables and at least \<open>num_variables\<close> and
  \<open>degree + 1\<close> coefficients, and the identity of \<open>G1\<close> is a left identity, then the prover
  returns exactly the proof with \<open>V_g1 = d0 \<cdot> V_g1_query[last] + MSM(V_g1_query[0 ..
  num_variables - num_inputs), coefficients_for_Vs[num_inputs .. num_variables))\<close>,
  \<open>alpha_V_g1\<close> the same sum over \<open>alpha_V_g1_query\<close>, \<open>H_g1 = MSM(H_g1_query[0 .. degree+1),
  coefficients_for_H[0 .. degree+1))\<close> and \<open>V_g2 = V_g2_query[0] + d0 \<cdot> V_g2_query[last] +
  MSM(V_g2_query[1 .. num_variables+1), coefficients_for_Vs[0 .. num_variables))\<close>, in
  either build.
\<close>

theorem prover_proof_components:
  assumes wit: "ssp_wit = witness_map R (cs pkey) x y d0"
    and blinding: "d ssp_wit = d0"
    and asserts: "prover_assertions R pkey x y ssp_wit"
    and inputs: "num_inputs ssp_wit \<le> num_variables ssp_wit"
    and coeffs_Vs: "num_variables ssp_wit \<le> length (coefficients_for_Vs ssp_wit)"
    and coeffs_H: "degree ssp_wit + 1 \<le> length (coefficients_for_H ssp_wit)"
    and zero_l: "\<And>a. g1_add C (g1_zero C) a = a"
  shows "prover C R assertions d0 pkey x y =
    Inr \<lparr>V_g1 =
           g1_add C (g1_mul C d0 (last (V_g1_query pkey)))
             (multiexp (g1_add C) (g1_mul C) (g1_zero C)
                (slice (V_g1_query pkey) 0 (num_variables ssp_wit - num_inputs ssp_wit))
                (slice (coefficients_for_Vs ssp_wit) (num_inputs ssp_wit) (num_variables ssp_wit))),
         alpha_V_g1 =
           g1_add C (g1_mul C d0 (last (alpha_V_g1_query pkey)))
             (multiexp (g1_add C) (g1_mul C) (g1_zero C)
                (slice (alpha_V_g1_query pkey) 0 (num_variables ssp_wit - num_inputs ssp_wit))
                (slice (coefficients_for_Vs ssp_wit) (num_inputs ssp_wit) (num_variables ssp_wit))),
         H_g1 =
           multiexp (g1_add C) (g1_mul C) (g1_zero C)
             (slice (H_g1_query pkey) 0 (degree ssp_wit + 1))
             (slice (coefficients_for_H ssp_wit) 0 (degree ssp_wit + 1)),
         V_g2 =
           g2_add C
             (g2_add C (V_g2_query pkey ! 0) (g2_mul C d0 (last (V_g2_query pkey))))
             (multiexp (g2_add C) (g2_mul C) (g2_zero C)
                (slice (V_g2_query pkey) 1 (num_variables ssp_wit + 1))
                (slice (coefficients_for_Vs ssp_wit) 0 (num_variables ssp_wit)))\<rparr>"
proof -
  have bounds: "prover_in_bounds pkey ssp_wit"
    using asserts inputs coeffs_Vs coeffs_H by (rule prover_in_bounds_from_assertions)
  then have nonempty:
    "V_g1_query pkey \<noteq> []" "alpha_V_g1_query pkey \<noteq> []" "V_g2_query pkey \<noteq> []"
    by (simp_all add: prover_in_bounds_def)
  have aux: "slice (coefficients_for_Vs ssp_wit) (num_inputs ssp_wit) (num_variables ssp_wit) =
             take (num_variables ssp_wit - num_inputs ssp_wit)
               (drop (num_inputs ssp_wit) (coefficients_for_Vs ssp_wit))"
    using inputs by (simp add: slice_def take_drop)
  have g2: "slice (V_g2_query pkey) 1 (num_variables ssp_wit + 1) =
            take (num_variables ssp_wit) (drop 1 (V_g2_query pkey))"
    by (simp add: slice_def drop_take)
  have from_start: "\<And>xs n. slice xs 0 n = take n xs"
    by (simp add: slice_def)
  show ?thesis
    unfolding aux g2 from_start
    using bounds asserts nonempty
    by (simp add: prover_def wit [symmetric] blinding Let_def zero_l last_conv_nth)
qed

text \<open>
  The honest key of the small curve, the satisfying assignment \<open>x\<^sub>1 = 4, y\<^sub>1 = 2\<close> and the
  draw \<open>d = 3\<close>, in a build with assertions.
\<close>

theorem prover_proof_components_witness:
  "prover toy_curve toy_reduction True 3 toy_pk [4] [2] = Inr toy_proof_4"
proof -
  have wit: "toy_witness [4] [2] 3 = witness_map toy_reduction (cs toy_pk) [4] [2] 3"
    by (simp add: toy_reduction_def)
  have blinding: "d (toy_witness [4] [2] 3) = 3"
    by (simp add: toy_witness_def)
  have asserts: "prover_assertions toy_reduction toy_pk [4] [2] (toy_witness [4] [2] 3)"
    by (simp add: toy_defs algorithm_defs)
  have inputs: "num_inputs (toy_witness [4] [2] 3) \<le> num_variables (toy_witness [4] [2] 3)"
    by (simp add: toy_witness_def)
  have coeffs_Vs:
    "num_variables (toy_witness [4] [2] 3) \<le> length (coefficients_for_Vs (toy_witness [4] [2] 3))"
    by (simp add: toy_witness_def)
  have coeffs_H:
    "degree (toy_witness [4] [2] 3) + 1 \<le> length (coefficients_for_H (toy_witness [4] [2] 3))"
    by (simp add: toy_witness_def)
  have zero_l: "\<And>a. g1_add toy_curve (g1_zero toy_curve) a = a"
    by (simp add: toy_curve_def)
  have "prover toy_curve toy_reduction True 3 toy_pk [4] [2] =
    Inr \<lparr>V_g1 =
           g1_add toy_curve (g1_mul toy_curve 3 (last (V_g1_query toy_pk)))
             (multiexp (g1_add toy_curve) (g1_mul toy_curve) (g1_zero toy_curve)
                (slice (V_g1_query toy_pk) 0
                   (num_variables (toy_witness [4] [2] 3) - num_inputs (toy_witness [4] [2] 3)))
                (slice (coefficients_for_Vs (toy_witness [4] [2] 3))
                   (num_inputs (toy_witness [4] [2] 3)) (num_variables (toy_witness [4] [2] 3)))),
         alpha_V_g1 =
           g1_add toy_curve (g1_mul toy_curve 3 (last (alpha_V_g1_query toy_pk)))
             (multiexp (g1_add toy_curve) (g1_mul toy_curve) (g1_zero toy_curve)
                (slice (alpha_V_g1_query toy_pk) 0
                   (num_variables (toy_witness [4] [2] 3) - num_inputs (toy_witness [4] [2] 3)))
                (slice (coefficients_for_Vs (toy_witness [4] [2] 3))
                   (num_inputs (toy_witness [4] [2] 3)) (num_variables (toy_witness [4] [2] 3)))),
         H_g1 =
           multiexp (g1_add toy_curve) (g1_mul toy_curve) (g1_zero toy_curve)
             (slice (H_g1_query toy_pk) 0 (degree (toy_witness [4] [2] 3) + 1))
             (slice (coefficients_for_H (toy_witness [4] [2] 3)) 0
                (degree (toy_witness [4] [2] 3) + 1)),
         V_g2 =
           g2_add toy_curve
             (g2_add toy_curve (V_g2_query toy_pk ! 0)
                (g2_mul toy_curve 3 (last (V_g2_query toy_pk))))
             (multiexp (g2_add toy_curve) (g2_mul toy_curve) (g2_zero toy_curve)
                (slice (V_g2_query toy_pk) 1 (num_variables (toy_witness [4] [2] 3) + 1))
                (slice (coefficients_for_Vs (toy_witness [4] [2] 3)) 0
                   (num_variables (toy_witness [4] [2] 3))))\<rparr>"
    by (rule prover_proof_components [OF wit blinding asserts inputs coeffs_Vs coeffs_H zero_l])
  also have "\<dots> = Inr toy_proof_4"
    by (simp add: toy_defs multiexp_def slice_def)
  finally show ?thesis .
qed

section \<open>Properties of key processing and of the offline verifiers\<close>

text \<open>
  Claim C3, as amended. For every verification key, the member \<open>pairing_of_g1_and_g2\<close> of
  the processed key that \<^verbatim>\<open>verifier_process_vk\<close> returns is the Miller-loop value of the
  precomputed generators of \<open>G1\<close> and \<open>G2\<close>, with no final exponentiation applied; the SSP
  equation multiplies it with other Miller-loop values and applies the final
  exponentiation to the product.
\<close>

theorem verifier_process_vk_pairing_is_miller_loop:
  "pairing_of_g1_and_g2 (fst (run_state (verifier_process_vk C vkey) l)) =
     miller_loop C (precompute_g1 C (g1_one C)) (precompute_g2 C (g2_one C))"
  by (simp add: verifier_process_vk_def)

text \<open>
  Claim C3 as stated fails: on the small curve the stored value is the Miller-loop value \<open>2\<close>,
  and the final exponentiation of it, the pairing of the generators, is \<open>4\<close>.
\<close>

theorem verifier_process_vk_pairing_counterexample:
  "pairing_of_g1_and_g2 (fst (run_state (verifier_process_vk toy_curve toy_vk) [])) \<noteq>
     final_exponentiation toy_curve
       (miller_loop toy_curve (precompute_g1 toy_curve (g1_one toy_curve))
          (precompute_g2 toy_curve (g2_one toy_curve)))"
  by (simp add: toy_defs algorithm_defs)

text \<open>
  Claim C6. For every verification key, primary input and proof, each offline verifier is
  the processing of the key followed by the online verifier of the same strength on the
  processed key: the same result and the same pairing calls, in either build.
\<close>

theorem offline_verifiers_are_online_after_process_vk:
  "verifier_weak_IC C assertions vkey primary_input prf =
     State_Monad.bind (verifier_process_vk C vkey)
       (\<lambda>pvkey. online_verifier_weak_IC C assertions pvkey primary_input prf) \<and>
   verifier_strong_IC C assertions vkey primary_input prf =
     State_Monad.bind (verifier_process_vk C vkey)
       (\<lambda>pvkey. online_verifier_strong_IC C assertions pvkey primary_input prf)"
  by (simp add: verifier_weak_IC_def verifier_strong_IC_def)

section \<open>Properties of the strong verifier\<close>

text \<open>
  Claim C4. For every processed key, primary input and proof: when the domain size of the
  IC query differs from the length of the input, \<^verbatim>\<open>online_verifier_strong_IC\<close> returns
  false whatever the proof is and makes no pairing call (the log is left as it was);
  otherwise its run is exactly the run of \<^verbatim>\<open>online_verifier_weak_IC\<close> on the same
  arguments.
\<close>

theorem online_verifier_strong_IC_length_check:
  "run_state (online_verifier_strong_IC C assertions pvkey primary_input prf) l =
     (if domain_size (pvk_encoded_IC_query pvkey) \<noteq> length primary_input then (Inr False, l)
      else run_state (online_verifier_weak_IC C assertions pvkey primary_input prf) l)"
  by (simp add: online_verifier_strong_IC_def)

section \<open>Padding the input of the weak verifier\<close>

lemma foldl_covered_padding:
  assumes zero_r: "\<And>a. add a zero = a" and mul_zero: "\<And>g. mul fzero g = zero"
  shows "foldl (\<lambda>acc (g, s). add acc (mul s g)) a
           (zip (map snd (filter (in_chunk 0 (length (x @ replicate k fzero))) es))
                (map (\<lambda>e. (x @ replicate k fzero) ! (fst e - 0))
                   (filter (in_chunk 0 (length (x @ replicate k fzero))) es))) =
         foldl (\<lambda>acc (g, s). add acc (mul s g)) a
           (zip (map snd (filter (in_chunk 0 (length x)) es))
                (map (\<lambda>e. x ! (fst e - 0)) (filter (in_chunk 0 (length x)) es)))"
proof (induction es arbitrary: a)
  case Nil
  then show ?case by simp
next
  case (Cons e es)
  consider (inside) "fst e < length x"
    | (padding) "length x \<le> fst e" "fst e < length x + k"
    | (outside) "length x + k \<le> fst e"
    by linarith
  then show ?case
  proof cases
    case inside
    then show ?thesis using Cons.IH by (simp add: in_chunk_def nth_append)
  next
    case padding
    then show ?thesis using Cons.IH by (simp add: in_chunk_def nth_append zero_r mul_zero)
  next
    case outside
    then show ?thesis using Cons.IH by (simp add: in_chunk_def)
  qed
qed

lemma accumulate_chunk_padding:
  assumes zero_r: "\<And>a. add a zero = a" and mul_zero: "\<And>g. mul fzero g = zero"
  shows "first (accumulate_chunk add mul zero av (x @ replicate k fzero) 0) =
         first (accumulate_chunk add mul zero av x 0)"
  using foldl_covered_padding [of add zero mul fzero zero x k "rest av", OF zero_r mul_zero]
  by (simp add: accumulate_chunk_def multiexp_def Let_def)

text \<open>
  In a build without assertions the weak verifiers do not tell an input from the same
  input followed by zeros, provided the identity of \<open>G1\<close> is a right identity and the
  zero scalar sends every element of \<open>G1\<close> to it.
\<close>

lemma online_verifier_weak_IC_padding_without_assertions:
  assumes zero_r: "\<And>a. g1_add C a (g1_zero C) = a"
    and mul_zero: "\<And>g. g1_mul C (fr_zero C) g = g1_zero C"
  shows "online_verifier_weak_IC C False pvkey (x @ replicate k (fr_zero C)) prf =
         online_verifier_weak_IC C False pvkey x prf"
  using accumulate_chunk_padding [of "g1_add C" "g1_zero C" "g1_mul C" "fr_zero C"
      "pvk_encoded_IC_query pvkey" x k, OF zero_r mul_zero]
  by (simp add: online_verifier_weak_IC_def Let_def)

lemma verifier_weak_IC_padding_without_assertions:
  assumes zero_r: "\<And>a. g1_add C a (g1_zero C) = a"
    and mul_zero: "\<And>g. g1_mul C (fr_zero C) g = g1_zero C"
  shows "verifier_weak_IC C False vkey (x @ replicate k (fr_zero C)) prf =
         verifier_weak_IC C False vkey x prf"
  using online_verifier_weak_IC_padding_without_assertions [OF zero_r mul_zero]
  by (simp add: verifier_weak_IC_def)

text \<open>
  Claim C5 at the input where the code departs from it. In a build with assertions, for
  the honest key of the small curve (one input position), the empty input and a proof
  that satisfies the three equations for \<open>x\<^sub>1 = 0\<close>: \<^verbatim>\<open>verifier_weak_IC\<close> stops at the
  assertion that the accumulation is complete on the empty input, and accepts the same
  input followed by one zero.
\<close>

theorem verifier_weak_IC_padding_failing_input:
  "length ([] :: 5 list) + 1 \<le> domain_size (encoded_IC_query toy_vk) \<and>
   fst (run_state (verifier_weak_IC toy_curve True toy_vk [] toy_proof_0) []) =
     Inl Assertion_failed \<and>
   fst (run_state
          (verifier_weak_IC toy_curve True toy_vk ([] @ replicate 1 (fr_zero toy_curve))
             toy_proof_0) []) = Inr True"
  by (simp add: toy_defs algorithm_defs)

section \<open>Properties of the generator\<close>

text \<open>
  Claim C7. For every constraint system whose instance evaluation passes the generator's
  sanity checks (lines 371 to 378), the generator returns a key pair, in either build, and
  the keys have the shapes the prover asserts: \<open>V_g1_query\<close> and \<open>alpha_V_g1_query\<close> have
  \<open>num_variables - num_inputs + 1\<close> elements (in integer arithmetic), \<open>H_g1_query\<close> has
  \<open>degree + 1\<close>, \<open>V_g2_query\<close> has \<open>num_variables + 2\<close>, and the domain size of the IC query
  of the verification key is \<open>num_inputs\<close>.
\<close>

theorem generator_key_shapes:
  assumes inst: "ssp_inst = instance_map_with_evaluation R c t"
    and checks: "generator_assertions C ssp_inst"
  shows "\<exists>kp. generator C R assertions t alpha tilde c = Inr kp \<and>
           int (length (V_g1_query (pk kp))) =
             int (num_variables ssp_inst) - int (num_inputs ssp_inst) + 1 \<and>
           int (length (alpha_V_g1_query (pk kp))) =
             int (num_variables ssp_inst) - int (num_inputs ssp_inst) + 1 \<and>
           length (H_g1_query (pk kp)) = degree ssp_inst + 1 \<and>
           length (V_g2_query (pk kp)) = num_variables ssp_inst + 2 \<and>
           domain_size (encoded_IC_query (vk kp)) = num_inputs ssp_inst"
proof -
  from checks obtain kp where gen: "generator C R assertions t alpha tilde c = Inr kp"
    using generator_total [of C R c t assertions alpha tilde] by (auto simp add: inst)
  from generator_shapes [OF gen inst checks] gen show ?thesis
    by blast
qed

text \<open>
  The small constraint system at the draws \<open>t = 1\<close>, \<open>alpha = 1\<close>, \<open>tilde = 2\<close>, in a build with
  assertions: the generator returns the key pair \<open>toy_keypair\<close>, of these shapes.
\<close>

theorem generator_key_shapes_witness:
  "generator_assertions toy_curve toy_instance \<and>
   generator toy_curve toy_reduction True 1 1 2 toy_cs = Inr toy_keypair \<and>
   int (length (V_g1_query (pk toy_keypair))) =
     int (num_variables toy_instance) - int (num_inputs toy_instance) + 1 \<and>
   int (length (alpha_V_g1_query (pk toy_keypair))) =
     int (num_variables toy_instance) - int (num_inputs toy_instance) + 1 \<and>
   length (H_g1_query (pk toy_keypair)) = degree toy_instance + 1 \<and>
   length (V_g2_query (pk toy_keypair)) = num_variables toy_instance + 2 \<and>
   domain_size (encoded_IC_query (vk toy_keypair)) = num_inputs toy_instance"
proof -
  have checks: "generator_assertions toy_curve toy_instance"
    by (simp add: toy_defs algorithm_defs)
  from generator_key_shapes [OF toy_instance_of_reduction checks, of True 1 2]
  show ?thesis
    using checks by (simp add: generator_toy)
qed




text \<open>
  Claim C10. For every store that holds a constraint system at the address the generator
  is called with, and whose instance evaluation passes the generator's sanity checks, the
  call returns a key pair and leaves every object the caller had as it was, in particular
  the constraint system at the argument's address; the constraint system of the returned
  proving key equals the caller's and lives at an address of its own, different from the
  argument's.
\<close>

theorem generator_call_frame:
  assumes held: "ref < length st" "st ! ref = Some c"
    and checks: "generator_assertions C (instance_map_with_evaluation R c t)"
  shows "\<exists>kp pk_cs st'.
           generator_call C R assertions t alpha tilde ref st = (Inr (kp, pk_cs), st') \<and>
           take (length st) st' = st \<and> st' ! ref = Some c \<and>
           cs (pk kp) = c \<and> pk_cs \<noteq> ref \<and> pk_cs < length st' \<and> st' ! pk_cs = Some c"
proof -
  from generator_total [OF checks] obtain kp
    where gen: "generator C R assertions t alpha tilde c = Inr kp"
    by blast
  have copied: "copy_construct st ref = Some (length st, st @ [Some c])"
    using held by (simp add: copy_construct_def)
  have moved: "move_construct (st @ [Some c]) (length st) =
                 Some (length st + 1, st @ [None, Some c])"
    by (simp add: move_construct_def)
  have call: "generator_call C R assertions t alpha tilde ref st =
                (Inr (kp, length st + 1), st @ [None, Some c])"
    using held by (simp add: generator_call_def gen copied moved)
  have "take (length st) (st @ [None, Some c]) = st"
    by simp
  moreover have "(st @ [None, Some c]) ! ref = Some c"
    using held by (simp add: nth_append)
  moreover have "cs (pk kp) = c"
    using gen by (rule generator_cs)
  moreover have "length st + 1 \<noteq> ref" "length st + 1 < length (st @ [None, Some c])"
    using held by simp_all
  moreover have "(st @ [None, Some c]) ! (length st + 1) = Some c"
    by (simp add: nth_append)
  ultimately show ?thesis
    using call by blast
qed

text \<open>
  The generator called, in a build with assertions, on the store that holds the small
  constraint system at the address \<open>0\<close>: the copy is made at the address \<open>1\<close> and moved to
  the address \<open>2\<close>.
\<close>

theorem generator_call_frame_witness:
  "generator_call toy_curve toy_reduction True 1 1 2 0 toy_store =
     (Inr (toy_keypair, 2), [Some toy_cs, None, Some toy_cs]) \<and>
   take (length toy_store) [Some toy_cs, None, Some toy_cs] = toy_store \<and>
   cs (pk toy_keypair) = toy_cs"
proof -
  have held: "0 < length toy_store" "toy_store ! 0 = Some toy_cs"
    by (simp_all add: toy_store_def)
  have checks:
    "generator_assertions toy_curve (instance_map_with_evaluation toy_reduction toy_cs 1)"
    by (simp add: toy_defs algorithm_defs)
  have call: "generator_call toy_curve toy_reduction True 1 1 2 0 toy_store =
                (Inr (toy_keypair, 2), [Some toy_cs, None, Some toy_cs])"
    by (simp add: generator_call_def generator_toy copy_construct_def move_construct_def
        toy_store_def)
  from generator_call_frame [OF held checks, of True 1 2]
  show ?thesis
    using call by auto
qed

section \<open>Properties of the default proof\<close>

text \<open>
  The three equations of the online verifier at the default proof, for the processed key
  of a verification key the generator returned: on a curve whose pairing is
  non-degenerate they hold together only if \<open>Z(t) = 0\<close> and \<open>alpha \<cdot> tilde = tilde\<close>.
\<close>

lemma default_proof_equations_force_draws:
  assumes nondegenerate_G1:
      "\<And>P. final_exponentiation C
              (gt_mul C (miller_loop C (precompute_g1 C P) (precompute_g2 C (g2_one C)))
                 (unitary_inversed C
                    (miller_loop C (precompute_g1 C (g1_one C)) (precompute_g2 C (g2_one C))))) =
            gt_one C \<Longrightarrow> P = g1_one C"
    and nondegenerate_G2:
      "\<And>s s'. final_exponentiation C
              (gt_mul C
                 (miller_loop C (precompute_g1 C (g1_one C))
                    (precompute_g2 C (g2_mul C s (g2_one C))))
                 (unitary_inversed C
                    (miller_loop C (precompute_g1 C (g1_one C))
                       (precompute_g2 C (g2_mul C s' (g2_one C)))))) =
            gt_one C \<Longrightarrow> s = s'"
    and pairing_cancels:
      "\<And>s. final_exponentiation C
              (gt_mul C
                 (gt_mul C
                    (unitary_inversed C
                       (miller_loop C (precompute_g1 C (g1_one C)) (precompute_g2 C (g2_one C))))
                    (miller_loop C (precompute_g1 C (g1_one C))
                       (precompute_g2 C (g2_mul C s (g2_one C)))))
                 (miller_loop C (precompute_g1 C (g1_one C)) (precompute_g2 C (g2_one C)))) =
            gt_one C \<Longrightarrow> s = fr_zero C"
    and gen: "generator C R assertions t alpha tilde c = Inr kp"
    and pvkey: "pvkey = fst (run_state (verifier_process_vk C (vk kp)) l)"
    and V: "equation_V C pvkey acc (default_proof C) = gt_one C"
    and SSP: "equation_SSP C pvkey acc (default_proof C) = gt_one C"
    and alpha: "equation_alpha C pvkey (default_proof C) = gt_one C"
  shows "Zt (instance_map_with_evaluation R c t) = fr_zero C \<and> fr_mul C alpha tilde = tilde"
proof -
  note key = generator_vk(1-3) [OF gen refl]
  have "fr_mul C alpha tilde = tilde"
    using alpha
    by (intro nondegenerate_G2)
      (simp add: equation_alpha_def pvkey run_state_verifier_process_vk default_proof_def key)
  moreover have "g1_add C (g1_one C) acc = g1_one C"
    using V
    by (intro nondegenerate_G1)
      (simp add: equation_V_def pvkey run_state_verifier_process_vk default_proof_def)
  then have "Zt (instance_map_with_evaluation R c t) = fr_zero C"
    using SSP
    by (intro pairing_cancels)
      (simp add: equation_SSP_def pvkey run_state_verifier_process_vk default_proof_def key)
  ultimately show ?thesis by simp
qed

text \<open>
  Claim C9, as amended. A default-constructed proof has all four components equal to the
  generator \<open>one()\<close> of its group and, on a curve whose generators are well formed, is well
  formed. On a curve whose pairing is non-degenerate, for every constraint system whose
  instance evaluation passes the generator's sanity checks and all draws with
  \<open>Z(t) \<noteq> 0\<close> or \<open>alpha \<cdot> tilde \<noteq> tilde\<close>, the generator returns a key pair under which the
  strong verifier rejects the default proof on every input, and the weak verifier rejects
  it on every input without assertions and on every input of full length with them.
  Non-degenerate means, with the pairing \<open>e\<close> computed as the verifier computes it (a
  product of Miller-loop values under one final exponentiation): \<open>e(P, G2) = e(G1, G2)\<close>
  only for \<open>P = G1\<close>; \<open>e(G1, s \<cdot> G2) = e(G1, s' \<cdot> G2)\<close> only for \<open>s = s'\<close>; and
  \<open>e(G1, G2)\<^sup>-\<^sup>1 \<cdot> e(G1, s \<cdot> G2) \<cdot> e(G1, G2)\<close> is the identity only for \<open>s = 0\<close>.
\<close>

theorem default_proof_rejected:
  assumes generators: "g1_is_well_formed C (g1_one C)" "g2_is_well_formed C (g2_one C)"
    and nondegenerate_G1:
      "\<And>P. final_exponentiation C
              (gt_mul C (miller_loop C (precompute_g1 C P) (precompute_g2 C (g2_one C)))
                 (unitary_inversed C
                    (miller_loop C (precompute_g1 C (g1_one C)) (precompute_g2 C (g2_one C))))) =
            gt_one C \<Longrightarrow> P = g1_one C"
    and nondegenerate_G2:
      "\<And>s s'. final_exponentiation C
              (gt_mul C
                 (miller_loop C (precompute_g1 C (g1_one C))
                    (precompute_g2 C (g2_mul C s (g2_one C))))
                 (unitary_inversed C
                    (miller_loop C (precompute_g1 C (g1_one C))
                       (precompute_g2 C (g2_mul C s' (g2_one C)))))) =
            gt_one C \<Longrightarrow> s = s'"
    and pairing_cancels:
      "\<And>s. final_exponentiation C
              (gt_mul C
                 (gt_mul C
                    (unitary_inversed C
                       (miller_loop C (precompute_g1 C (g1_one C)) (precompute_g2 C (g2_one C))))
                    (miller_loop C (precompute_g1 C (g1_one C))
                       (precompute_g2 C (g2_mul C s (g2_one C)))))
                 (miller_loop C (precompute_g1 C (g1_one C)) (precompute_g2 C (g2_one C)))) =
            gt_one C \<Longrightarrow> s = fr_zero C"
    and checks: "generator_assertions C (instance_map_with_evaluation R c t)"
    and draws: "Zt (instance_map_with_evaluation R c t) \<noteq> fr_zero C \<or>
                fr_mul C alpha tilde \<noteq> tilde"
    and full: "assertions \<Longrightarrow> length x = num_inputs (instance_map_with_evaluation R c t)"
  shows "V_g1 (default_proof C) = g1_one C \<and> alpha_V_g1 (default_proof C) = g1_one C \<and>
         H_g1 (default_proof C) = g1_one C \<and> V_g2 (default_proof C) = g2_one C \<and>
         is_well_formed C (default_proof C) \<and>
         (\<exists>kp. generator C R assertions t alpha tilde c = Inr kp \<and>
            fst (run_state (verifier_weak_IC C assertions (vk kp) x (default_proof C)) l) =
              Inr False \<and>
            fst (run_state (verifier_strong_IC C assertions (vk kp) y (default_proof C)) l) =
              Inr False)"
proof -
  from generator_total [OF checks] obtain kp
    where gen: "generator C R assertions t alpha tilde c = Inr kp"
    by blast
  define pvkey where "pvkey = fst (run_state (verifier_process_vk C (vk kp)) l)"
  define l' where "l' = snd (run_state (verifier_process_vk C (vk kp)) l)"
  note key = generator_vk [OF gen refl]
  have size: "domain_size (encoded_IC_query (vk kp)) =
                num_inputs (instance_map_with_evaluation R c t)"
    using generator_shapes(5) [OF gen refl checks] .
  have query: "pvk_encoded_IC_query pvkey = encoded_IC_query (vk kp)"
    unfolding pvkey_def by (rule pvk_encoded_IC_query_process_vk)
  have complete: "is_fully_accumulated (accumulated_input C pvkey z)"
    if "length z = num_inputs (instance_map_with_evaluation R c t)" for z
  proof -
    have "is_fully_accumulated
            (accumulate_chunk (g1_add C) (g1_mul C) (g1_zero C)
               (accumulation_vector_of (first (encoded_IC_query (vk kp)))
                  (batch_exp (g1_mul C) (g1_one C)
                     (drop 1 (take (num_inputs (instance_map_with_evaluation R c t) + 1)
                        (Vt_table (instance_map_with_evaluation R c t))))))
               z 0)"
      using that key(5) by (intro dense_fully_accumulated) simp
    then show ?thesis
      using key(4) by (simp add: accumulated_input_def query)
  qed
  have no_equations: "\<not> (equation_V C pvkey acc (default_proof C) = gt_one C \<and>
                         equation_SSP C pvkey acc (default_proof C) = gt_one C \<and>
                         equation_alpha C pvkey (default_proof C) = gt_one C)" for acc
    using default_proof_equations_force_draws
      [OF nondegenerate_G1 nondegenerate_G2 pairing_cancels gen pvkey_def] draws
    by blast
  have rejected:
    "run_state (online_verifier_weak_IC C assertions pvkey z (default_proof C)) l' =
       (Inr False, l' @ online_verifier_calls)"
    if "assertions \<Longrightarrow> length z = num_inputs (instance_map_with_evaluation R c t)" for z
  proof -
    have pre: "assertions \<Longrightarrow>
                 length z \<le> domain_size (pvk_encoded_IC_query pvkey) \<and>
                 is_fully_accumulated (accumulated_input C pvkey z)"
      using that complete [of z] by (simp add: query size)
    show ?thesis
      by (simp add: online_verifier_weak_IC_run [OF pre] no_equations)
  qed
  have weak: "fst (run_state (verifier_weak_IC C assertions (vk kp) x (default_proof C)) l) =
                Inr False"
    using rejected [OF full]
    by (simp add: verifier_weak_IC_def case_prod_beta pvkey_def [symmetric] l'_def [symmetric])
  have strong: "fst (run_state (verifier_strong_IC C assertions (vk kp) y (default_proof C)) l) =
                  Inr False"
  proof (cases "domain_size (encoded_IC_query (vk kp)) = length y")
    case True
    then have "length y = num_inputs (instance_map_with_evaluation R c t)"
      using size by simp
    then show ?thesis
      using rejected [of y] True
      by (simp add: verifier_strong_IC_def online_verifier_strong_IC_def case_prod_beta
          pvkey_def [symmetric] l'_def [symmetric] query)
  next
    case False
    then show ?thesis
      by (simp add: verifier_strong_IC_def online_verifier_strong_IC_def case_prod_beta
          pvkey_def [symmetric] query)
  qed
  have "is_well_formed C (default_proof C)"
    using generators by (simp add: is_well_formed_def default_proof_def)
  moreover have "V_g1 (default_proof C) = g1_one C \<and> alpha_V_g1 (default_proof C) = g1_one C \<and>
                 H_g1 (default_proof C) = g1_one C \<and> V_g2 (default_proof C) = g2_one C"
    by (simp add: default_proof_def)
  ultimately show ?thesis
    using gen weak strong by blast
qed

text \<open>
  The small curve and the draws \<open>t = 1\<close>, \<open>alpha = 3\<close>, \<open>tilde = 2\<close>, for which
  \<open>alpha \<cdot> tilde = 1\<close>, in a build with assertions: the generator returns the key pair
  \<open>toy_keypair_3\<close>, the default proof is well formed, the weak verifier rejects it on the
  input \<open>x\<^sub>1 = 4\<close> and the strong verifier on the same input.
\<close>

theorem default_proof_rejected_witness:
  "generator toy_curve toy_reduction True 1 3 2 toy_cs = Inr toy_keypair_3 \<and>
   is_well_formed toy_curve (default_proof toy_curve) \<and>
   fst (run_state
          (verifier_weak_IC toy_curve True (vk toy_keypair_3) [4] (default_proof toy_curve)) []) =
     Inr False \<and>
   fst (run_state
          (verifier_strong_IC toy_curve True (vk toy_keypair_3) [4] (default_proof toy_curve)) []) =
     Inr False"
proof -
  have generators: "g1_is_well_formed toy_curve (g1_one toy_curve)"
    "g2_is_well_formed toy_curve (g2_one toy_curve)"
    by (simp_all add: toy_curve_def)
  have checks:
    "generator_assertions toy_curve (instance_map_with_evaluation toy_reduction toy_cs 1)"
    by (simp add: toy_defs algorithm_defs)
  have draws: "Zt (instance_map_with_evaluation toy_reduction toy_cs 1) \<noteq> fr_zero toy_curve \<or>
               fr_mul toy_curve 3 2 \<noteq> 2"
    by (simp add: toy_curve_def)
  have full: "True \<Longrightarrow>
                length [4 :: 5] = num_inputs (instance_map_with_evaluation toy_reduction toy_cs 1)"
    by (simp add: toy_reduction_def toy_instance_def)
  from default_proof_rejected
    [where assertions = True and x = "[4]" and y = "[4]" and l = "[]",
      OF generators toy_nondegenerate_G1 toy_nondegenerate_G2 toy_pairing_cancels checks draws full]
  show ?thesis
    by (simp add: generator_toy_3)
qed

text \<open>
  Claim C9 as stated fails: the key pair the generator returns on the small curve for the
  draws \<open>t = 1\<close> (a point of the domain, where \<open>Z\<close> vanishes), \<open>alpha = 1\<close> and \<open>tilde = 2\<close>
  makes the weak and the strong verifier accept the default proof for the input
  \<open>x\<^sub>1 = 4\<close>.
\<close>

theorem default_proof_accepted_counterexample:
  "generator toy_curve toy_reduction True 1 1 2 toy_cs = Inr toy_keypair \<and>
   vk toy_keypair = toy_vk \<and>
   fst (run_state (verifier_weak_IC toy_curve True toy_vk [4] (default_proof toy_curve)) []) =
     Inr True \<and>
   fst (run_state (verifier_strong_IC toy_curve True toy_vk [4] (default_proof toy_curve)) []) =
     Inr True"
  by (simp add: toy_defs algorithm_defs)

end

